theory Spec2Isabelle
  imports Complex_Main "HOL-Library.List_Lexorder" "HOL-Library.Multiset"
begin

section \<open>Python strings\<close>

text \<open>
  A Python \<open>str\<close> is a sequence of Unicode code points; \<open>len\<close>, slicing and the
  comparison of two strings all work on code points. A string is therefore a list of
  natural numbers, ordered lexicographically, and a literal of the source is written
  \<open>str ''...''\<close>.
\<close>

type_synonym codepoint = nat
type_synonym pystr = "codepoint list"

definition str :: "string \<Rightarrow> pystr" where
  "str s = map of_char s"

definition startswith :: "pystr \<Rightarrow> pystr \<Rightarrow> bool" where
  "startswith s p = (take (length p) s = p)"

definition endswith :: "pystr \<Rightarrow> pystr \<Rightarrow> bool" where
  "endswith s p = (length p \<le> length s \<and> drop (length s - length p) s = p)"

text \<open>\<open>s.rstrip('/')\<close>: every trailing occurrence of the one character is removed.\<close>

definition rstrip :: "codepoint \<Rightarrow> pystr \<Rightarrow> pystr" where
  "rstrip c s = rev (dropWhile (\<lambda>x. x = c) (rev s))"

text \<open>\<open>s.split(sep)\<close> for a one-character separator: never the empty list.\<close>

fun split_acc :: "codepoint \<Rightarrow> pystr \<Rightarrow> pystr \<Rightarrow> pystr list" where
  "split_acc sep cur [] = [rev cur]"
| "split_acc sep cur (c # cs) =
     (if c = sep then rev cur # split_acc sep [] cs else split_acc sep (c # cur) cs)"

definition split :: "codepoint \<Rightarrow> pystr \<Rightarrow> pystr list" where
  "split sep s = split_acc sep [] s"

text \<open>\<open>s.split(sep, 1)[0]\<close>: the text before the first separator, all of \<open>s\<close> if
  there is none.\<close>

definition split1_first :: "codepoint \<Rightarrow> pystr \<Rightarrow> pystr" where
  "split1_first sep s = takeWhile (\<lambda>c. c \<noteq> sep) s"

text \<open>\<open>s.replace(a, b)\<close> for one-character \<open>a\<close> and \<open>b\<close>.\<close>

definition replace :: "codepoint \<Rightarrow> codepoint \<Rightarrow> pystr \<Rightarrow> pystr" where
  "replace a b s = map (\<lambda>c. if c = a then b else c) s"

text \<open>
  Case mapping. On the ASCII range \<open>str.lower\<close> and \<open>str.upper\<close> move the 26 letters
  and nothing else. \<open>lower_ascii\<close> is used by the harvester on a name that holds
  ASCII characters only (lemma \<open>sanitized_ascii\<close> below). \<open>str.upper\<close> works code point
  by code point; a code point outside ASCII is mapped by Unicode's table, which is the
  parameter \<open>uc\<close> (one code point may become several).
\<close>

definition lower_cp :: "codepoint \<Rightarrow> codepoint" where
  "lower_cp c = (if 65 \<le> c \<and> c \<le> 90 then c + 32 else c)"

definition lower_ascii :: "pystr \<Rightarrow> pystr" where
  "lower_ascii s = map lower_cp s"

definition upper_cp :: "(codepoint \<Rightarrow> pystr) \<Rightarrow> codepoint \<Rightarrow> pystr" where
  "upper_cp uc c = (if c < 128 then [if 97 \<le> c \<and> c \<le> 122 then c - 32 else c] else uc c)"

definition upper :: "(codepoint \<Rightarrow> pystr) \<Rightarrow> pystr \<Rightarrow> pystr" where
  "upper uc s = concat (map (upper_cp uc) s)"

section \<open>The harvester: \<open>save_urls_to_texts.py\<close>\<close>

subsection \<open>\<open>sanitize_filename_from_url\<close>\<close>

text \<open>
  \<open>re.sub(r'^https?://', '', url, flags=re.I)\<close>. Under \<open>re.I\<close> a literal of the pattern
  matches the code points whose lower case it is, and \<open>s\<close> matches the long s
  (U+017F, 383) as well. The pattern is anchored, so at most the one match at the start
  is removed; \<open>s?\<close> is greedy, and since \<open>s\<close> is not \<open>:\<close> at most one of the two
  alternatives matches.
\<close>

definition ci_match :: "char \<Rightarrow> codepoint \<Rightarrow> bool" where
  "ci_match l c =
     (c = of_char l \<or> lower_cp c = of_char l \<or> (l = CHR ''s'' \<and> c = 383))"

fun match_prefix :: "(codepoint \<Rightarrow> bool) list \<Rightarrow> pystr \<Rightarrow> pystr option" where
  "match_prefix [] s = Some s"
| "match_prefix (p # ps) [] = None"
| "match_prefix (p # ps) (c # cs) = (if p c then match_prefix ps cs else None)"

definition match_scheme :: "pystr \<Rightarrow> pystr option" where
  "match_scheme url =
     (case match_prefix (map ci_match ''http'') url of
        None \<Rightarrow> None
      | Some r \<Rightarrow>
          (case match_prefix (map ci_match ''s://'') r of
             Some r' \<Rightarrow> Some r'
           | None \<Rightarrow> match_prefix (map ci_match ''://'') r))"

definition strip_scheme :: "pystr \<Rightarrow> pystr" where
  "strip_scheme url = (case match_scheme url of Some rest \<Rightarrow> rest | None \<Rightarrow> url)"

text \<open>The class \<open>[A-Za-z0-9._\-]\<close>; \<open>re.sub\<close> replaces every other code point.\<close>

definition is_safe :: "codepoint \<Rightarrow> bool" where
  "is_safe c =
     ((65 \<le> c \<and> c \<le> 90) \<or> (97 \<le> c \<and> c \<le> 122) \<or> (48 \<le> c \<and> c \<le> 57)
      \<or> c = 46 \<or> c = 95 \<or> c = 45)"

definition sub_unsafe :: "pystr \<Rightarrow> pystr" where
  "sub_unsafe s = map (\<lambda>c. if is_safe c then c else 95) s"

text \<open>The name before the suffix test: lines 55 to 60 of the source.\<close>

definition sanitize_stem :: "pystr \<Rightarrow> pystr" where
  "sanitize_stem url =
     (let m = strip_scheme url;
          m = split1_first 35 (split1_first 63 m);
          name = replace 47 95 m;
          name = sub_unsafe name
      in if length name > 180 then drop (length name - 180) name else name)"

definition sanitize_filename_from_url :: "pystr \<Rightarrow> pystr" where
  "sanitize_filename_from_url url =
     (let name = sanitize_stem url
      in if \<not> endswith (lower_ascii name) (str ''.txt'') then name @ str ''.txt''
         else name)"

subsection \<open>\<open>run_all\<close> and \<open>fetch_and_save_text\<close>: where the text of a URL is written\<close>

text \<open>
  \<open>outpath = output_dir / fname\<close>. The derived name holds no separator, so the path is
  the directory with that one last component. The output directory is a map from paths
  to file contents. A task that gets as far as \<open>outpath.write_text(text_content)\<close>
  replaces the content at its path; a task whose navigation or extraction raised is
  logged and writes nothing (\<open>None\<close>).
\<close>

type_synonym outpath = "pystr \<times> pystr"

definition outpath_of :: "pystr \<Rightarrow> pystr \<Rightarrow> outpath" where
  "outpath_of output_dir url = (output_dir, sanitize_filename_from_url url)"

fun fetch_and_save_text ::
  "(outpath \<rightharpoonup> pystr) \<Rightarrow> outpath \<Rightarrow> pystr option \<Rightarrow> (outpath \<rightharpoonup> pystr)" where
  "fetch_and_save_text fs outpath (Some text_content) = fs(outpath \<mapsto> text_content)"
| "fetch_and_save_text fs outpath None = fs"

subsection \<open>\<open>read_urls_from_files\<close>\<close>

text \<open>
  \<open>str.strip()\<close> removes the code points for which \<open>str.isspace\<close> holds, at both
  ends; \<open>str.splitlines()\<close> cuts at the line boundaries, \<open>\r\n\<close> counting as one, and
  gives no last empty line when the text ends with a boundary.
\<close>

definition is_space :: "codepoint \<Rightarrow> bool" where
  "is_space c =
     ((9 \<le> c \<and> c \<le> 13) \<or> (28 \<le> c \<and> c \<le> 32) \<or> c = 133 \<or> c = 160 \<or> c = 5760
      \<or> (8192 \<le> c \<and> c \<le> 8202) \<or> c = 8232 \<or> c = 8233 \<or> c = 8239 \<or> c = 8287
      \<or> c = 12288)"

definition is_linebreak :: "codepoint \<Rightarrow> bool" where
  "is_linebreak c =
     ((10 \<le> c \<and> c \<le> 13) \<or> (28 \<le> c \<and> c \<le> 30) \<or> c = 133 \<or> c = 8232 \<or> c = 8233)"

definition strip :: "pystr \<Rightarrow> pystr" where
  "strip s = rev (dropWhile is_space (rev (dropWhile is_space s)))"

fun splitlines_acc :: "pystr \<Rightarrow> pystr \<Rightarrow> pystr list" where
  "splitlines_acc cur [] = (if cur = [] then [] else [rev cur])"
| "splitlines_acc cur [c] =
     (if is_linebreak c then [rev cur] else [rev (c # cur)])"
| "splitlines_acc cur (c # d # cs) =
     (if c = 13 \<and> d = 10 then rev cur # splitlines_acc [] cs
      else if is_linebreak c then rev cur # splitlines_acc [] (d # cs)
      else splitlines_acc (c # cur) (d # cs))"

definition splitlines :: "pystr \<Rightarrow> pystr list" where
  "splitlines s = splitlines_acc [] s"

text \<open>
  The input files: a path either does not exist (\<open>None\<close>) or holds the text that
  \<open>read_text(encoding='utf-8')\<close> returns. The two loops of the source append to \<open>urls\<close>.
\<close>

type_synonym textfiles = "pystr \<Rightarrow> pystr option"

fun read_lines :: "pystr list \<Rightarrow> pystr list \<Rightarrow> pystr list" where
  "read_lines urls [] = urls"
| "read_lines urls (line # rest) =
     (let u = strip line
      in if u = [] then read_lines urls rest else read_lines (urls @ [u]) rest)"

fun read_files :: "textfiles \<Rightarrow> pystr list \<Rightarrow> pystr list \<Rightarrow> pystr list" where
  "read_files fs urls [] = urls"
| "read_files fs urls (f # files) =
     (case fs f of
        None \<Rightarrow> read_files fs urls files
      | Some text \<Rightarrow> read_files fs (read_lines urls (splitlines text)) files)"

definition read_urls_from_files :: "textfiles \<Rightarrow> pystr list \<Rightarrow> pystr list" where
  "read_urls_from_files fs files = read_files fs [] files"

text \<open>The claim's own words: the stripped, nonblank lines of one file.\<close>

definition nonblank_lines :: "pystr \<Rightarrow> pystr list" where
  "nonblank_lines text = filter (\<lambda>u. u \<noteq> []) (map strip (splitlines text))"

definition lines_of_file :: "textfiles \<Rightarrow> pystr \<Rightarrow> pystr list" where
  "lines_of_file fs f = (case fs f of None \<Rightarrow> [] | Some text \<Rightarrow> nonblank_lines text)"

section \<open>The scanners: \<open>extract_mitre_urls.py\<close> and \<open>extract_mitre_mitigation_urls.py\<close>\<close>

subsection \<open>What \<open>json.load\<close> returns\<close>

text \<open>
  A parsed document. Python compares and hashes an \<open>int\<close> and a finite \<open>float\<close> by
  their numeric value, so one constructor holds both; \<open>json.load\<close> also produces the
  floats that are not finite. A \<open>dict\<close> is the list of its entries, looked up with
  \<open>map_of\<close>. The scanners raise nothing of their own, but the operations they apply to
  whatever the document holds do, and nothing catches that outside the \<open>try\<close> around
  \<open>json.load\<close>.
\<close>

datatype nonfinite = PosInf | NegInf | NaN

datatype json =
    JNull
  | JBool bool
  | JNum rat
  | JNonFinite nonfinite
  | JStr pystr
  | JList "json list"
  | JDict "(pystr \<times> json) list"

datatype py_error = TypeError | AttributeError

text \<open>Truth value of a parsed value, as \<open>if v\<close> and \<open>v or []\<close> test it.\<close>

fun truthy :: "json \<Rightarrow> bool" where
  "truthy JNull = False"
| "truthy (JBool b) = b"
| "truthy (JNum q) = (q \<noteq> 0)"
| "truthy (JNonFinite n) = True"
| "truthy (JStr s) = (s \<noteq> [])"
| "truthy (JList xs) = (xs \<noteq> [])"
| "truthy (JDict kvs) = (kvs \<noteq> [])"

text \<open>\<open>for x in v\<close>: a list gives its elements, a string its characters, a dict its
  keys; nothing else can be iterated.\<close>

fun py_iter :: "json \<Rightarrow> py_error + json list" where
  "py_iter (JList xs) = Inr xs"
| "py_iter (JStr s) = Inr (map (\<lambda>c. JStr [c]) s)"
| "py_iter (JDict kvs) = Inr (map (\<lambda>kv. JStr (fst kv)) kvs)"
| "py_iter v = Inl TypeError"

text \<open>A \<open>for\<close> loop over a list whose body updates the state or raises.\<close>

fun for_each :: "('s \<Rightarrow> 'a \<Rightarrow> py_error + 's) \<Rightarrow> 's \<Rightarrow> 'a list \<Rightarrow> py_error + 's" where
  "for_each body s [] = Inr s"
| "for_each body s (x # xs) =
     (case body s x of Inl e \<Rightarrow> Inl e | Inr s' \<Rightarrow> for_each body s' xs)"

text \<open>\<open>data.get('objects') if isinstance(data, dict) else None\<close>, and the test that it
  is a list.\<close>

definition objects_of :: "json \<Rightarrow> json list option" where
  "objects_of data =
     (case data of
        JDict d \<Rightarrow> (case map_of d (str ''objects'') of Some (JList objs) \<Rightarrow> Some objs | _ \<Rightarrow> None)
      | _ \<Rightarrow> None)"

text \<open>\<open>obj.get('external_references', []) or []\<close>\<close>

definition external_references :: "(pystr \<times> json) list \<Rightarrow> json" where
  "external_references obj =
     (let v = (case map_of obj (str ''external_references'') of None \<Rightarrow> JList [] | Some v \<Rightarrow> v)
      in if truthy v then v else JList [])"

subsection \<open>The technique scanner: \<open>extract_urls\<close>\<close>

text \<open>
  The elements of the set \<open>urls\<close>: \<open>ref['url']\<close> is added as it is, whatever its type.
  A list or a dict cannot be hashed; \<open>True\<close> and \<open>False\<close> are the numbers 1 and 0.
\<close>

datatype hval = HNone | HNum rat | HNonFinite nonfinite | HStr pystr

fun set_add :: "hval set \<Rightarrow> json \<Rightarrow> py_error + hval set" where
  "set_add urls JNull = Inr (insert HNone urls)"
| "set_add urls (JBool b) = Inr (insert (HNum (if b then 1 else 0)) urls)"
| "set_add urls (JNum q) = Inr (insert (HNum q) urls)"
| "set_add urls (JNonFinite n) = Inr (insert (HNonFinite n) urls)"
| "set_add urls (JStr s) = Inr (insert (HStr s) urls)"
| "set_add urls (JList xs) = Inl TypeError"
| "set_add urls (JDict kvs) = Inl TypeError"

definition technique_ref :: "hval set \<Rightarrow> json \<Rightarrow> py_error + hval set" where
  "technique_ref urls ref =
     (case ref of
        JDict r \<Rightarrow>
          (if map_of r (str ''source_name'') = Some (JStr (str ''mitre-attack''))
           then (case map_of r (str ''url'') of None \<Rightarrow> Inr urls | Some v \<Rightarrow> set_add urls v)
           else Inr urls)
      | _ \<Rightarrow> Inr urls)"

definition technique_obj :: "hval set \<Rightarrow> json \<Rightarrow> py_error + hval set" where
  "technique_obj urls obj =
     (case obj of
        JDict ob \<Rightarrow>
          (if map_of ob (str ''type'') \<noteq> Some (JStr (str ''attack-pattern'')) then Inr urls
           else (case py_iter (external_references ob) of
                   Inl e \<Rightarrow> Inl e
                 | Inr refs \<Rightarrow> for_each technique_ref urls refs))
      | _ \<Rightarrow> Inr urls)"

text \<open>
  One path of \<open>root.rglob('*.json')\<close>: \<open>None\<close> when opening, reading or parsing it
  raises (the \<open>except Exception: continue\<close>), the parsed document otherwise.
\<close>

definition technique_file :: "hval set \<Rightarrow> json option \<Rightarrow> py_error + hval set" where
  "technique_file urls file =
     (case file of
        None \<Rightarrow> Inr urls
      | Some data \<Rightarrow>
          (case objects_of data of
             None \<Rightarrow> Inr urls
           | Some objs \<Rightarrow> for_each technique_obj urls objs))"

definition extract_urls :: "json option list \<Rightarrow> py_error + hval set" where
  "extract_urls files = for_each technique_file {} files"

subsection \<open>The mitigation scanner: \<open>extract_mitigation_urls\<close>\<close>

text \<open>\<open>p in s\<close> for two strings.\<close>

fun contains_str :: "pystr \<Rightarrow> pystr \<Rightarrow> bool" where
  "contains_str p [] = (p = [])"
| "contains_str p (c # cs) = (startswith (c # cs) p \<or> contains_str p cs)"

text \<open>\<open>'/mitigations/' in url\<close>: a substring test on a string, a membership test on a
  list or on the keys of a dict, a \<open>TypeError\<close> on anything else.\<close>

fun mitigations_in :: "json \<Rightarrow> py_error + bool" where
  "mitigations_in (JStr s) = Inr (contains_str (str ''/mitigations/'') s)"
| "mitigations_in (JList xs) = Inr (JStr (str ''/mitigations/'') \<in> set xs)"
| "mitigations_in (JDict kvs) = Inr (str ''/mitigations/'' \<in> set (map fst kvs))"
| "mitigations_in v = Inl TypeError"

definition mitigation_ref ::
  "(codepoint \<Rightarrow> pystr) \<Rightarrow> pystr set \<Rightarrow> json \<Rightarrow> py_error + pystr set" where
  "mitigation_ref uc urls ref =
     (case ref of
        JDict r \<Rightarrow>
          (if map_of r (str ''source_name'') \<noteq> Some (JStr (str ''mitre-attack'')) then Inr urls
           else
             let url = (case map_of r (str ''url'') of None \<Rightarrow> JNull | Some v \<Rightarrow> v);
                 ext_id = (case map_of r (str ''external_id'') of None \<Rightarrow> JStr [] | Some v \<Rightarrow> v)
             in (case (if truthy url then mitigations_in url else Inr False) of
                   Inl e \<Rightarrow> Inl e
                 | Inr True \<Rightarrow>
                     (case url of
                        JStr s \<Rightarrow> Inr (insert (rstrip 47 s) urls)
                      | _ \<Rightarrow> Inl AttributeError)
                 | Inr False \<Rightarrow>
                     (case ext_id of
                        JStr s \<Rightarrow>
                          (if s \<noteq> [] \<and> startswith (upper uc s) (str ''M'')
                           then Inr (insert (str ''https://attack.mitre.org/mitigations/'' @ upper uc s) urls)
                           else Inr urls)
                      | _ \<Rightarrow> Inr urls)))
      | _ \<Rightarrow> Inr urls)"

definition mitigation_obj ::
  "(codepoint \<Rightarrow> pystr) \<Rightarrow> pystr set \<Rightarrow> json \<Rightarrow> py_error + pystr set" where
  "mitigation_obj uc urls obj =
     (case obj of
        JDict ob \<Rightarrow>
          (case py_iter (external_references ob) of
             Inl e \<Rightarrow> Inl e
           | Inr refs \<Rightarrow> for_each (mitigation_ref uc) urls refs)
      | _ \<Rightarrow> Inr urls)"

definition mitigation_file ::
  "(codepoint \<Rightarrow> pystr) \<Rightarrow> pystr set \<Rightarrow> json option \<Rightarrow> py_error + pystr set" where
  "mitigation_file uc urls file =
     (case file of
        None \<Rightarrow> Inr urls
      | Some data \<Rightarrow>
          (case objects_of data of
             None \<Rightarrow> Inr urls
           | Some objs \<Rightarrow> for_each (mitigation_obj uc) urls objs))"

definition extract_mitigation_urls ::
  "(codepoint \<Rightarrow> pystr) \<Rightarrow> json option list \<Rightarrow> py_error + pystr set" where
  "extract_mitigation_urls uc files = for_each (mitigation_file uc) {} files"

subsection \<open>The two \<open>main\<close> functions\<close>

text \<open>
  What \<open>main\<close> changes: the lines printed and the output file, absent (\<open>None\<close>) or with
  its text. \<open>out.open('w')\<close> creates or empties the file, and each \<open>f.write\<close> appends.
\<close>

datatype message = Scanning pystr | NoneFound | Wrote nat pystr

record world =
  stdout :: "message list"
  out_file :: "pystr option"

definition print :: "message \<Rightarrow> world \<Rightarrow> world" where
  "print m w = w\<lparr>stdout := stdout w @ [m]\<rparr>"

definition write_lines :: "pystr list \<Rightarrow> world \<Rightarrow> world" where
  "write_lines ls w = w\<lparr>out_file := Some (concat (map (\<lambda>l. l @ str ''\<newline>'') ls))\<rparr>"

text \<open>\<open>keyfn\<close>, the same in both programs: \<open>u.rstrip('/').split('/')[-1]\<close>.\<close>

definition keyfn :: "pystr \<Rightarrow> pystr" where
  "keyfn u = last (split 47 (rstrip 47 u))"

text \<open>
  \<open>sorted(urls, key=keyfn)\<close> reads the set in its iteration order, which Python does
  not fix (the hash of a string changes from one process to the next), and sorts
  stably: elements with equal keys keep that order. \<open>order\<close> is the iteration order of
  the run; \<open>iteration_of order urls\<close> says that it lists the set.
\<close>

definition iteration_of :: "'a list \<Rightarrow> 'a set \<Rightarrow> bool" where
  "iteration_of order urls = (set order = urls \<and> distinct order)"

fun str_of :: "hval \<Rightarrow> pystr option" where
  "str_of (HStr s) = Some s"
| "str_of v = None"

text \<open>In the technique scanner an element that is not a string has no \<open>rstrip\<close>.\<close>

definition sorted_urls :: "hval list \<Rightarrow> py_error + pystr list" where
  "sorted_urls order =
     (case those (map str_of order) of
        None \<Rightarrow> Inl AttributeError
      | Some us \<Rightarrow> Inr (sort_key keyfn us))"

definition technique_main ::
  "pystr \<Rightarrow> pystr \<Rightarrow> json option list \<Rightarrow> hval list \<Rightarrow> world \<Rightarrow> py_error + world" where
  "technique_main rootdir out files order w =
     (let w = print (Scanning rootdir) w
      in case extract_urls files of
           Inl e \<Rightarrow> Inl e
         | Inr urls \<Rightarrow>
             if urls = {} then Inr (print NoneFound w)
             else (case sorted_urls order of
                     Inl e \<Rightarrow> Inl e
                   | Inr us \<Rightarrow>
                       Inr (print (Wrote (length us) out)
                              (write_lines (map (rstrip 47) us) w))))"

definition mitigation_main ::
  "(codepoint \<Rightarrow> pystr) \<Rightarrow> pystr \<Rightarrow> pystr \<Rightarrow> json option list \<Rightarrow> pystr list \<Rightarrow> world
     \<Rightarrow> py_error + world" where
  "mitigation_main uc rootdir out files order w =
     (let w = print (Scanning rootdir) w
      in case extract_mitigation_urls uc files of
           Inl e \<Rightarrow> Inl e
         | Inr urls \<Rightarrow>
             if urls = {} then Inr (print NoneFound w)
             else (let us = sort_key keyfn order
                   in Inr (print (Wrote (length us) out) (write_lines us w))))"

subsection \<open>Notions used to state the properties\<close>

text \<open>
  A loop body \<open>adds\<close> when all it does to the set it is given is to put elements in:
  its result from any set is its result from the empty set, joined to that set.
\<close>

definition adds :: "('a set \<Rightarrow> 'b \<Rightarrow> py_error + 'a set) \<Rightarrow> bool" where
  "adds body = (\<forall>s x. body s x = (case body {} x of Inl e \<Rightarrow> Inl e | Inr S \<Rightarrow> Inr (s \<union> S)))"

text \<open>The set a scan returns, empty when it raised.\<close>

definition result_set :: "py_error + 'a set \<Rightarrow> 'a set" where
  "result_set r = (case r of Inl e \<Rightarrow> {} | Inr S \<Rightarrow> S)"

text \<open>The files that could be read and parsed.\<close>

definition parsed :: "json option list \<Rightarrow> json option list" where
  "parsed files = filter (\<lambda>f. f \<noteq> None) files"

text \<open>An element of \<open>objects\<close> that has no reference records: it is not a dict, or its
  \<open>external_references\<close> are absent or empty.\<close>

definition no_reference_records :: "json \<Rightarrow> bool" where
  "no_reference_records obj =
     (case obj of JDict ob \<Rightarrow> external_references ob = JList [] | _ \<Rightarrow> True)"

subsection \<open>Example documents\<close>

text \<open>Two sub-techniques, whose URLs both end in the segment \<open>001\<close>.\<close>

definition subtechnique_doc :: json where
  "subtechnique_doc =
     JDict [(str ''type'', JStr (str ''bundle'')),
            (str ''objects'', JList [
               JDict [(str ''type'', JStr (str ''attack-pattern'')),
                      (str ''external_references'', JList [
                         JDict [(str ''source_name'', JStr (str ''mitre-attack'')),
                                (str ''url'', JStr (str ''https://attack.mitre.org/techniques/T1059/001''))]])],
               JDict [(str ''type'', JStr (str ''attack-pattern'')),
                      (str ''external_references'', JList [
                         JDict [(str ''source_name'', JStr (str ''mitre-attack'')),
                                (str ''url'', JStr (str ''https://attack.mitre.org/techniques/T1547/001''))]])]])]"

text \<open>Three techniques; one URL has a trailing slash, and one reference is not from
  \<open>mitre-attack\<close>.\<close>

definition techniques_doc :: json where
  "techniques_doc =
     JDict [(str ''objects'', JList [
               JDict [(str ''type'', JStr (str ''attack-pattern'')),
                      (str ''external_references'', JList [
                         JDict [(str ''source_name'', JStr (str ''mitre-attack'')),
                                (str ''url'', JStr (str ''https://attack.mitre.org/techniques/T1059.001''))],
                         JDict [(str ''source_name'', JStr (str ''capec'')),
                                (str ''url'', JStr (str ''https://capec.mitre.org/1''))]])],
               JDict [(str ''type'', JStr (str ''attack-pattern'')),
                      (str ''external_references'', JList [
                         JDict [(str ''source_name'', JStr (str ''mitre-attack'')),
                                (str ''url'', JStr (str ''https://attack.mitre.org/techniques/T1003/''))]])],
               JDict [(str ''type'', JStr (str ''attack-pattern'')),
                      (str ''external_references'', JList [
                         JDict [(str ''source_name'', JStr (str ''mitre-attack'')),
                                (str ''url'', JStr (str ''https://attack.mitre.org/techniques/T1548''))]])]])]"

text \<open>One mitigation reference without a \<open>url\<close>, among objects without references.\<close>

definition m1234_doc :: json where
  "m1234_doc =
     JDict [(str ''type'', JStr (str ''bundle'')),
            (str ''objects'', JList [
               JStr (str ''not an object''),
               JDict [(str ''type'', JStr (str ''identity''))],
               JDict [(str ''type'', JStr (str ''course-of-action'')),
                      (str ''external_references'', JList [
                         JDict [(str ''source_name'', JStr (str ''mitre-attack'')),
                                (str ''external_id'', JStr (str ''M1234''))]])],
               JDict [(str ''external_references'', JList [])]])]"

text \<open>The same with an identifier that ends in a slash.\<close>

definition slash_id_doc :: json where
  "slash_id_doc =
     JDict [(str ''objects'', JList [
               JDict [(str ''type'', JStr (str ''course-of-action'')),
                      (str ''external_references'', JList [
                         JDict [(str ''source_name'', JStr (str ''mitre-attack'')),
                                (str ''external_id'', JStr (str ''M1234/''))]])]])]"

subsection \<open>Lemmas on the filename derivation\<close>

lemma sub_unsafe_safe: "list_all is_safe (sub_unsafe s)"
  by (induction s) (simp_all add: sub_unsafe_def is_safe_def)

lemma sanitize_stem_safe: "list_all is_safe (sanitize_stem url)"
proof -
  have "list_all is_safe (drop n (sub_unsafe s))" for n s
    using sub_unsafe_safe [of s] by (auto simp: list_all_iff dest: in_set_dropD)
  then show ?thesis
    by (simp add: sanitize_stem_def Let_def sub_unsafe_safe)
qed

lemma sanitize_stem_length: "length (sanitize_stem url) \<le> 180"
  by (simp add: sanitize_stem_def Let_def)

lemma sanitized_ascii: "list_all (\<lambda>c. c < 128) (sanitize_stem url)"
  using sanitize_stem_safe [of url] by (auto simp: list_all_iff is_safe_def)

lemma txt_safe: "list_all is_safe (str ''.txt'')"
  by (simp add: str_def is_safe_def)

lemma endswith_append_same: "endswith (s @ p) p"
  by (simp add: endswith_def)

lemma lower_ascii_append: "lower_ascii (s @ t) = lower_ascii s @ lower_ascii t"
  by (simp add: lower_ascii_def)

lemma lower_txt: "lower_ascii (str ''.txt'') = str ''.txt''"
  by (simp add: lower_ascii_def lower_cp_def str_def)

lemma read_lines_eq: "read_lines urls ls = urls @ filter (\<lambda>u. u \<noteq> []) (map strip ls)"
  by (induction ls arbitrary: urls) (simp_all add: Let_def)

lemma read_files_eq: "read_files fs urls files = urls @ concat (map (lines_of_file fs) files)"
  by (induction files arbitrary: urls)
     (simp_all add: lines_of_file_def nonblank_lines_def read_lines_eq split: option.splits)

subsection \<open>Lemmas on strings\<close>

lemma rstrip_not_endswith: "\<not> endswith (rstrip c s) [c]"
proof -
  define d where "d = dropWhile (\<lambda>x. x = c) (rev s)"
  have r: "rstrip c s = rev d"
    by (simp add: rstrip_def d_def)
  show ?thesis
  proof (cases d)
    case Nil
    then show ?thesis by (simp add: r endswith_def)
  next
    case (Cons x xs)
    then have "d \<noteq> []" by simp
    then have "hd d \<noteq> c"
      unfolding d_def using hd_dropWhile [of "\<lambda>x. x = c" "rev s"] by simp
    then show ?thesis
      using Cons by (simp add: r endswith_def)
  qed
qed

lemma upper_M1234: "upper uc (str ''M1234'') = str ''M1234''"
  by (simp add: upper_def upper_cp_def str_def)

subsection \<open>Lemmas on sorting\<close>

text \<open>When no two elements of the set share a key, the sorted list is the same for
  every iteration order.\<close>

lemma sort_key_iteration_unique:
  assumes "iteration_of o1 S" "iteration_of o2 S" "inj_on f S"
  shows "sort_key f o1 = sort_key f o2"
proof (rule sort_key_inj_key_eq)
  from assms(1,2) have "mset o1 = mset o2"
    using set_eq_iff_mset_eq_distinct [of o1 o2] by (simp add: iteration_of_def)
  then show "mset o1 = mset (sort_key f o2)" by simp
  from assms(1,3) show "inj_on f (set o1)" by (simp add: iteration_of_def)
  show "sorted (map f (sort_key f o2))" by simp
qed

lemma those_str_of_map: "those (map (str_of \<circ> HStr) us) = Some us"
  by (induction us) simp_all

lemma all_HStr_map:
  "set order \<subseteq> range HStr \<Longrightarrow> \<exists>us. order = map HStr us"
proof (induction order)
  case Nil
  then show ?case by simp
next
  case (Cons v vs)
  then obtain us where "vs = map HStr us" by auto
  moreover from Cons.prems obtain u where "v = HStr u" by auto
  ultimately have "v # vs = map HStr (u # us)" by simp
  then show ?case by (rule exI)
qed

subsection \<open>Lemmas on the loops\<close>

lemmas technique_defs = extract_urls_def technique_file_def technique_obj_def technique_ref_def
  objects_of_def external_references_def
lemmas mitigation_defs = extract_mitigation_urls_def mitigation_file_def mitigation_obj_def
  mitigation_ref_def objects_of_def external_references_def

lemma for_each_append:
  "for_each body s (xs @ ys)
     = (case for_each body s xs of Inl e \<Rightarrow> Inl e | Inr s' \<Rightarrow> for_each body s' ys)"
  by (induction xs arbitrary: s) (simp_all split: sum.splits)

lemma for_each_skip:
  assumes "\<And>s. body s x = Inr s"
  shows "for_each body s (xs @ x # ys) = for_each body s (xs @ ys)"
  by (induction xs arbitrary: s) (simp_all add: assms split: sum.splits)

lemma for_each_parsed:
  assumes "\<And>s. body s None = Inr s"
  shows "for_each body s (parsed files) = for_each body s files"
  by (induction files arbitrary: s) (simp_all add: parsed_def assms split: sum.splits)

lemma addsD:
  "adds body \<Longrightarrow> body s x = (case body {} x of Inl e \<Rightarrow> Inl e | Inr S \<Rightarrow> Inr (s \<union> S))"
  unfolding adds_def by blast

lemma for_each_adds_step:
  assumes "adds body"
  shows "for_each body s xs
           = (case for_each body {} xs of Inl e \<Rightarrow> Inl e | Inr S \<Rightarrow> Inr (s \<union> S))"
proof (induction xs arbitrary: s)
  case Nil
  show ?case by simp
next
  case (Cons x xs)
  show ?case
  proof (cases "body {} x")
    case (Inl e)
    then have "body s x = Inl e" using addsD [OF assms, of s x] by simp
    with Inl show ?thesis by simp
  next
    case (Inr S)
    then have bs: "body s x = Inr (s \<union> S)" using addsD [OF assms, of s x] by simp
    show ?thesis
    proof (cases "for_each body {} xs")
      case (Inl e)
      then show ?thesis
        using Inr bs Cons.IH [of "s \<union> S"] Cons.IH [of S] by simp
    next
      case (Inr T)
      then show ?thesis
        using \<open>body {} x = Inr S\<close> bs Cons.IH [of "s \<union> S"] Cons.IH [of S]
        by (simp add: Un_assoc)
    qed
  qed
qed

lemma adds_set_add: "adds set_add"
  unfolding adds_def
proof (intro allI)
  fix s v show "set_add s v = (case set_add {} v of Inl e \<Rightarrow> Inl e | Inr S \<Rightarrow> Inr (s \<union> S))"
    by (cases v) simp_all
qed

lemma adds_technique_ref: "adds technique_ref"
  unfolding adds_def
proof (intro allI)
  fix s v
  show "technique_ref s v = (case technique_ref {} v of Inl e \<Rightarrow> Inl e | Inr S \<Rightarrow> Inr (s \<union> S))"
    using addsD [OF adds_set_add, of s]
    by (cases v) (simp_all add: technique_ref_def split: option.splits)
qed

lemma adds_technique_obj: "adds technique_obj"
  unfolding adds_def
proof (intro allI)
  fix s v
  show "technique_obj s v = (case technique_obj {} v of Inl e \<Rightarrow> Inl e | Inr S \<Rightarrow> Inr (s \<union> S))"
    using for_each_adds_step [OF adds_technique_ref, of s]
    by (cases v) (simp_all add: technique_obj_def split: sum.splits)
qed

lemma adds_technique_file: "adds technique_file"
  unfolding adds_def
proof (intro allI)
  fix s f
  show "technique_file s f = (case technique_file {} f of Inl e \<Rightarrow> Inl e | Inr S \<Rightarrow> Inr (s \<union> S))"
    using for_each_adds_step [OF adds_technique_obj, of s]
    by (simp add: technique_file_def split: option.splits)
qed

lemma adds_mitigation_ref: "adds (mitigation_ref uc)"
  unfolding adds_def
proof (intro allI)
  fix s v
  show "mitigation_ref uc s v
          = (case mitigation_ref uc {} v of Inl e \<Rightarrow> Inl e | Inr S \<Rightarrow> Inr (s \<union> S))"
    by (cases v)
       (simp_all add: mitigation_ref_def Let_def
          split: sum.splits bool.splits json.splits option.splits)
qed

lemma adds_mitigation_obj: "adds (mitigation_obj uc)"
  unfolding adds_def
proof (intro allI)
  fix s v
  show "mitigation_obj uc s v
          = (case mitigation_obj uc {} v of Inl e \<Rightarrow> Inl e | Inr S \<Rightarrow> Inr (s \<union> S))"
    using for_each_adds_step [OF adds_mitigation_ref, of uc s]
    by (cases v) (simp_all add: mitigation_obj_def split: sum.splits)
qed

lemma adds_mitigation_file: "adds (mitigation_file uc)"
  unfolding adds_def
proof (intro allI)
  fix s f
  show "mitigation_file uc s f
          = (case mitigation_file uc {} f of Inl e \<Rightarrow> Inl e | Inr S \<Rightarrow> Inr (s \<union> S))"
    using for_each_adds_step [OF adds_mitigation_obj, of uc s]
    by (simp add: mitigation_file_def split: option.splits)
qed

lemma for_each_union:
  assumes "adds body" and "\<forall>x\<in>set xs. \<exists>S. body {} x = Inr S"
  shows "for_each body {} xs = Inr (\<Union>x\<in>set xs. result_set (body {} x))"
  using assms(2)
proof (induction xs)
  case Nil
  show ?case by simp
next
  case (Cons x xs)
  then obtain S where S: "body {} x = Inr S" by auto
  from Cons have IH: "for_each body {} xs = Inr (\<Union>x\<in>set xs. result_set (body {} x))"
    by simp
  have "for_each body {} (x # xs) = for_each body S xs"
    by (simp add: S)
  also have "\<dots> = Inr (S \<union> (\<Union>x\<in>set xs. result_set (body {} x)))"
    using for_each_adds_step [OF assms(1), of S xs] IH by simp
  finally show ?case
    by (simp add: S result_set_def)
qed

lemma for_each_Inr_all:
  assumes "adds body" and "for_each body {} xs = Inr S"
  shows "\<forall>x\<in>set xs. \<exists>T. body {} x = Inr T"
  using assms(2)
proof (induction xs arbitrary: S)
  case Nil
  show ?case by simp
next
  case (Cons x xs)
  then obtain T where T: "body {} x = Inr T" and r: "for_each body T xs = Inr S"
    by (auto split: sum.splits)
  from r for_each_adds_step [OF assms(1), of T xs]
  obtain U where "for_each body {} xs = Inr U"
    by (auto split: sum.splits)
  with Cons.IH T show ?case by auto
qed

text \<open>The set does not depend on the order in which \<open>rglob\<close> yields the files.\<close>

lemma for_each_order_irrelevant:
  assumes "adds body" and "for_each body {} xs = Inr S" and "set ys = set xs"
  shows "for_each body {} ys = Inr S"
proof -
  have all: "\<forall>x\<in>set xs. \<exists>T. body {} x = Inr T"
    by (rule for_each_Inr_all [OF assms(1,2)])
  then have "for_each body {} xs = Inr (\<Union>x\<in>set xs. result_set (body {} x))"
    by (rule for_each_union [OF assms(1)])
  moreover from all assms(3)
  have "for_each body {} ys = Inr (\<Union>x\<in>set ys. result_set (body {} x))"
    by (intro for_each_union [OF assms(1)]) simp
  ultimately show ?thesis
    using assms(2,3) by simp
qed

lemma mitigation_obj_no_refs:
  "no_reference_records obj \<Longrightarrow> mitigation_obj uc urls obj = Inr urls"
  by (cases obj) (simp_all add: no_reference_records_def mitigation_obj_def)

lemma mitigation_objs_no_refs:
  "list_all no_reference_records objs \<Longrightarrow> for_each (mitigation_obj uc) urls objs = Inr urls"
  by (induction objs) (simp_all add: mitigation_obj_no_refs)

subsection \<open>The example documents, scanned\<close>

lemma subtechnique_doc_urls:
  "extract_urls [Some subtechnique_doc]
     = Inr {HStr (str ''https://attack.mitre.org/techniques/T1059/001''),
            HStr (str ''https://attack.mitre.org/techniques/T1547/001'')}"
  by (simp add: subtechnique_doc_def technique_defs str_def insert_commute)

lemma techniques_doc_urls:
  "extract_urls [Some techniques_doc]
     = Inr {HStr (str ''https://attack.mitre.org/techniques/T1059.001''),
            HStr (str ''https://attack.mitre.org/techniques/T1003/''),
            HStr (str ''https://attack.mitre.org/techniques/T1548'')}"
  by (simp add: techniques_doc_def technique_defs str_def insert_commute)

lemma m1234_doc_urls:
  "extract_mitigation_urls (\<lambda>c. [c]) [Some m1234_doc]
     = Inr {str ''https://attack.mitre.org/mitigations/M1234''}"
  by (simp add: m1234_doc_def mitigation_defs upper_def upper_cp_def str_def startswith_def)

lemma slash_id_doc_urls:
  "extract_mitigation_urls uc [Some slash_id_doc]
     = Inr {str ''https://attack.mitre.org/mitigations/M1234/''}"
  by (simp add: slash_id_doc_def mitigation_defs upper_def upper_cp_def str_def startswith_def)

section \<open>Claims\<close>

text \<open>
  C1 (as the code has it). For the input URL \<open>https://attack.mitre.org/techniques/T1548/\<close>
  the filename derivation returns exactly \<open>attack.mitre.org_techniques_T1548_.txt\<close>: the
  scheme is stripped, every path separator, the trailing one too, becomes an underscore,
  and the \<open>.txt\<close> suffix is appended.
\<close>

theorem C1_sanitize_T1548:
  "sanitize_filename_from_url (str ''https://attack.mitre.org/techniques/T1548/'')
     = str ''attack.mitre.org_techniques_T1548_.txt''"
  by code_simp

text \<open>
  C1 as the specification states it, with the result
  \<open>attack.mitre.org_techniques_T1548.txt\<close>, does not hold: the trailing separator of the
  URL is kept as an underscore before the suffix.
\<close>

theorem C1_counterexample:
  "sanitize_filename_from_url (str ''https://attack.mitre.org/techniques/T1548/'')
     \<noteq> str ''attack.mitre.org_techniques_T1548.txt''"
  by code_simp

text \<open>
  C9. For every input string the derived filename has only characters of the set
  A-Z, a-z, 0-9, \<open>.\<close>, \<open>_\<close>, \<open>-\<close>; it ends with \<open>.txt\<close> up to letter case; it has at most
  184 characters, being a name of at most 180 characters to which \<open>.txt\<close> is appended
  or not.
\<close>

theorem C9_sanitize_shape:
  "list_all is_safe (sanitize_filename_from_url url)
   \<and> endswith (lower_ascii (sanitize_filename_from_url url)) (str ''.txt'')
   \<and> length (sanitize_filename_from_url url) \<le> 184
   \<and> length (sanitize_stem url) \<le> 180
   \<and> (sanitize_filename_from_url url = sanitize_stem url
      \<or> sanitize_filename_from_url url = sanitize_stem url @ str ''.txt'')"
proof -
  have len: "length (sanitize_stem url) \<le> 180"
    by (rule sanitize_stem_length)
  have l4: "length (str ''.txt'') = 4"
    by (simp add: str_def)
  show ?thesis
  proof (cases "endswith (lower_ascii (sanitize_stem url)) (str ''.txt'')")
    case True
    then have eq: "sanitize_filename_from_url url = sanitize_stem url"
      by (simp add: sanitize_filename_from_url_def Let_def)
    show ?thesis
      using True len by (simp add: eq sanitize_stem_safe)
  next
    case False
    then have eq: "sanitize_filename_from_url url = sanitize_stem url @ str ''.txt''"
      by (simp add: sanitize_filename_from_url_def Let_def)
    have "endswith (lower_ascii (sanitize_stem url @ str ''.txt'')) (str ''.txt'')"
      by (simp add: lower_ascii_append lower_txt endswith_append_same)
    then show ?thesis
      using len by (simp add: eq sanitize_stem_safe txt_safe l4)
  qed
qed

text \<open>
  C8. For every list of input files, \<open>read_urls_from_files\<close> returns exactly the
  stripped, nonblank lines of each existing file, in the order of the files and, within
  a file, of the lines; a file that does not exist contributes nothing and the call
  still returns; nothing is deduplicated, within a file or across files.
\<close>

theorem C8_read_urls_from_files:
  "read_urls_from_files fs files = concat (map (lines_of_file fs) files)"
  by (simp add: read_urls_from_files_def read_files_eq)

theorem C8_witness:
  "read_urls_from_files
     ((\<lambda>f. None)(str ''a.txt'' \<mapsto> str ''  u1 \<newline>\<newline>u2\<newline>u1'', str ''b.txt'' \<mapsto> str ''u2\<newline>''))
     [str ''a.txt'', str ''missing.txt'', str ''b.txt'', str ''a.txt'']
   = [str ''u1'', str ''u2'', str ''u1'', str ''u2'', str ''u1'', str ''u2'', str ''u1'']"
  unfolding C8_read_urls_from_files
  by (simp add: lines_of_file_def nonblank_lines_def splitlines_def strip_def str_def
      is_space_def is_linebreak_def)

text \<open>
  C10. The filename derivation is not injective. A URL and the same URL with a query
  string, and two URLs that differ in a character outside the safe set, have the same
  derived filename and hence the same output path; when both texts are saved, the file
  holds the text of the later write only.
\<close>

theorem C10_sanitize_not_injective:
  "str ''https://attack.mitre.org/techniques/T1548''
     \<noteq> str ''https://attack.mitre.org/techniques/T1548?tab=1''
   \<and> sanitize_filename_from_url (str ''https://attack.mitre.org/techniques/T1548'')
     = sanitize_filename_from_url (str ''https://attack.mitre.org/techniques/T1548?tab=1'')
   \<and> str ''http://a/b c'' \<noteq> str ''http://a/b_c''
   \<and> sanitize_filename_from_url (str ''http://a/b c'')
     = sanitize_filename_from_url (str ''http://a/b_c'')
   \<and> outpath_of dir (str ''https://attack.mitre.org/techniques/T1548'')
     = outpath_of dir (str ''https://attack.mitre.org/techniques/T1548?tab=1'')
   \<and> fetch_and_save_text
        (fetch_and_save_text fs
           (outpath_of dir (str ''https://attack.mitre.org/techniques/T1548'')) (Some t1))
        (outpath_of dir (str ''https://attack.mitre.org/techniques/T1548?tab=1'')) (Some t2)
     = fs(outpath_of dir (str ''https://attack.mitre.org/techniques/T1548'') \<mapsto> t2)
   \<and> \<not> inj sanitize_filename_from_url"
proof -
  have ne1: "str ''https://attack.mitre.org/techniques/T1548''
     \<noteq> str ''https://attack.mitre.org/techniques/T1548?tab=1''"
    by (simp add: str_def)
  have eq1: "sanitize_filename_from_url (str ''https://attack.mitre.org/techniques/T1548'')
     = sanitize_filename_from_url (str ''https://attack.mitre.org/techniques/T1548?tab=1'')"
    by code_simp
  have ne2: "str ''http://a/b c'' \<noteq> str ''http://a/b_c''"
    by (simp add: str_def)
  have eq2: "sanitize_filename_from_url (str ''http://a/b c'')
     = sanitize_filename_from_url (str ''http://a/b_c'')"
    by code_simp
  have ninj: "\<not> inj sanitize_filename_from_url"
    using ne1 eq1 by (auto simp: inj_def)
  show ?thesis
    using ne1 eq1 ne2 eq2 ninj by (simp add: outpath_of_def)
qed

text \<open>
  C2 (what the code does on a tie). The specification asks for the same output file on
  every run over the same input, and the source sorts "for deterministic output". The
  document \<open>subtechnique_doc\<close> yields two URLs whose last segment is \<open>001\<close> for both.
  Each of the two lists below is an iteration order of that set; the sort is stable and
  the keys are equal, so the file written follows the iteration order, and the two
  runs write different files.
\<close>

theorem C2_tied_keys_follow_iteration_order:
  "extract_urls [Some subtechnique_doc] = Inr {HStr (str ''https://attack.mitre.org/techniques/T1059/001''), HStr (str ''https://attack.mitre.org/techniques/T1547/001'')}
   \<and> iteration_of [HStr (str ''https://attack.mitre.org/techniques/T1059/001''), HStr (str ''https://attack.mitre.org/techniques/T1547/001'')] {HStr (str ''https://attack.mitre.org/techniques/T1059/001''), HStr (str ''https://attack.mitre.org/techniques/T1547/001'')}
   \<and> iteration_of [HStr (str ''https://attack.mitre.org/techniques/T1547/001''), HStr (str ''https://attack.mitre.org/techniques/T1059/001'')] {HStr (str ''https://attack.mitre.org/techniques/T1059/001''), HStr (str ''https://attack.mitre.org/techniques/T1547/001'')}
   \<and> keyfn (str ''https://attack.mitre.org/techniques/T1059/001'') = keyfn (str ''https://attack.mitre.org/techniques/T1547/001'')
   \<and> technique_main rootdir out [Some subtechnique_doc] [HStr (str ''https://attack.mitre.org/techniques/T1059/001''), HStr (str ''https://attack.mitre.org/techniques/T1547/001'')] w
     = Inr (w\<lparr>stdout := stdout w @ [Scanning rootdir, Wrote 2 out],
             out_file := Some (str ''https://attack.mitre.org/techniques/T1059/001\<newline>https://attack.mitre.org/techniques/T1547/001\<newline>'')\<rparr>)
   \<and> technique_main rootdir out [Some subtechnique_doc] [HStr (str ''https://attack.mitre.org/techniques/T1547/001''), HStr (str ''https://attack.mitre.org/techniques/T1059/001'')] w
     = Inr (w\<lparr>stdout := stdout w @ [Scanning rootdir, Wrote 2 out],
             out_file := Some (str ''https://attack.mitre.org/techniques/T1547/001\<newline>https://attack.mitre.org/techniques/T1059/001\<newline>'')\<rparr>)
   \<and> technique_main rootdir out [Some subtechnique_doc] [HStr (str ''https://attack.mitre.org/techniques/T1059/001''), HStr (str ''https://attack.mitre.org/techniques/T1547/001'')] w
     \<noteq> technique_main rootdir out [Some subtechnique_doc] [HStr (str ''https://attack.mitre.org/techniques/T1547/001''), HStr (str ''https://attack.mitre.org/techniques/T1059/001'')] w"
proof -
  have ka: "keyfn (str ''https://attack.mitre.org/techniques/T1059/001'') = str ''001''"
    by code_simp
  have kb: "keyfn (str ''https://attack.mitre.org/techniques/T1547/001'') = str ''001''"
    by code_simp
  have ra: "rstrip 47 (str ''https://attack.mitre.org/techniques/T1059/001'') = str ''https://attack.mitre.org/techniques/T1059/001''"
    by code_simp
  have rb: "rstrip 47 (str ''https://attack.mitre.org/techniques/T1547/001'') = str ''https://attack.mitre.org/techniques/T1547/001''"
    by code_simp
  have ne: "str ''https://attack.mitre.org/techniques/T1059/001''
      \<noteq> str ''https://attack.mitre.org/techniques/T1547/001''"
    by (simp add: str_def)
  have it1: "iteration_of [HStr (str ''https://attack.mitre.org/techniques/T1059/001''), HStr (str ''https://attack.mitre.org/techniques/T1547/001'')] {HStr (str ''https://attack.mitre.org/techniques/T1059/001''), HStr (str ''https://attack.mitre.org/techniques/T1547/001'')}"
    using ne by (simp add: iteration_of_def)
  have it2: "iteration_of [HStr (str ''https://attack.mitre.org/techniques/T1547/001''), HStr (str ''https://attack.mitre.org/techniques/T1059/001'')] {HStr (str ''https://attack.mitre.org/techniques/T1059/001''), HStr (str ''https://attack.mitre.org/techniques/T1547/001'')}"
    using ne by (auto simp: iteration_of_def)
  have m1: "technique_main rootdir out [Some subtechnique_doc] [HStr (str ''https://attack.mitre.org/techniques/T1059/001''), HStr (str ''https://attack.mitre.org/techniques/T1547/001'')] w
     = Inr (w\<lparr>stdout := stdout w @ [Scanning rootdir, Wrote 2 out],
             out_file := Some (str ''https://attack.mitre.org/techniques/T1059/001\<newline>https://attack.mitre.org/techniques/T1547/001\<newline>'')\<rparr>)"
    by (simp add: technique_main_def subtechnique_doc_urls sorted_urls_def ka kb ra rb
        print_def write_lines_def) (simp add: str_def)
  have m2: "technique_main rootdir out [Some subtechnique_doc] [HStr (str ''https://attack.mitre.org/techniques/T1547/001''), HStr (str ''https://attack.mitre.org/techniques/T1059/001'')] w
     = Inr (w\<lparr>stdout := stdout w @ [Scanning rootdir, Wrote 2 out],
             out_file := Some (str ''https://attack.mitre.org/techniques/T1547/001\<newline>https://attack.mitre.org/techniques/T1059/001\<newline>'')\<rparr>)"
    by (simp add: technique_main_def subtechnique_doc_urls sorted_urls_def ka kb ra rb
        print_def write_lines_def) (simp add: str_def)
  have differ: "str ''https://attack.mitre.org/techniques/T1059/001\<newline>https://attack.mitre.org/techniques/T1547/001\<newline>''
      \<noteq> str ''https://attack.mitre.org/techniques/T1547/001\<newline>https://attack.mitre.org/techniques/T1059/001\<newline>''"
    by (simp add: str_def)
  have m3: "technique_main rootdir out [Some subtechnique_doc] [HStr (str ''https://attack.mitre.org/techniques/T1059/001''), HStr (str ''https://attack.mitre.org/techniques/T1547/001'')] w
     \<noteq> technique_main rootdir out [Some subtechnique_doc] [HStr (str ''https://attack.mitre.org/techniques/T1547/001''), HStr (str ''https://attack.mitre.org/techniques/T1059/001'')] w"
  proof
    assume "technique_main rootdir out [Some subtechnique_doc] [HStr (str ''https://attack.mitre.org/techniques/T1059/001''), HStr (str ''https://attack.mitre.org/techniques/T1547/001'')] w
      = technique_main rootdir out [Some subtechnique_doc] [HStr (str ''https://attack.mitre.org/techniques/T1547/001''), HStr (str ''https://attack.mitre.org/techniques/T1059/001'')] w"
    then have "out_file (w\<lparr>stdout := stdout w @ [Scanning rootdir, Wrote 2 out],
             out_file := Some (str ''https://attack.mitre.org/techniques/T1059/001\<newline>https://attack.mitre.org/techniques/T1547/001\<newline>'')\<rparr>)
       = out_file (w\<lparr>stdout := stdout w @ [Scanning rootdir, Wrote 2 out],
             out_file := Some (str ''https://attack.mitre.org/techniques/T1547/001\<newline>https://attack.mitre.org/techniques/T1059/001\<newline>'')\<rparr>)"
      unfolding m1 m2 by simp
    with differ show False by simp
  qed
  show ?thesis
    using subtechnique_doc_urls it1 it2 ka kb m1 m2 m3 by simp
qed

text \<open>
  C3. For every JSON input whose objects hold exactly one reference record, that record
  having \<open>source_name\<close> equal to \<open>mitre-attack\<close>, no \<open>url\<close> field and \<open>external_id\<close>
  \<open>M1234\<close> (whatever other fields the record, its object and the document have, and
  whatever objects without reference records stand before and after), the mitigation
  scanner returns exactly the set \<open>{https://attack.mitre.org/mitigations/M1234}\<close>.
\<close>

theorem C3_synthesized_mitigation_url:
  assumes objs: "map_of doc (str ''objects'') = Some (JList (before @ [JDict ob] @ after))"
    and pre: "list_all no_reference_records before"
    and post: "list_all no_reference_records after"
    and refs: "map_of ob (str ''external_references'') = Some (JList [JDict ref])"
    and src: "map_of ref (str ''source_name'') = Some (JStr (str ''mitre-attack''))"
    and url: "map_of ref (str ''url'') = None"
    and ext: "map_of ref (str ''external_id'') = Some (JStr (str ''M1234''))"
  shows "extract_mitigation_urls uc [Some (JDict doc)]
           = Inr {str ''https://attack.mitre.org/mitigations/M1234''}"
proof -
  have m: "str ''M1234'' \<noteq> [] \<and> startswith (str ''M1234'') (str ''M'')"
    by (simp add: str_def startswith_def)
  have one: "mitigation_ref uc urls (JDict ref)
               = Inr (insert (str ''https://attack.mitre.org/mitigations/'' @ str ''M1234'') urls)" for urls
    using m by (simp add: mitigation_ref_def src url ext upper_M1234)
  have ob: "mitigation_obj uc {} (JDict ob)
               = Inr {str ''https://attack.mitre.org/mitigations/'' @ str ''M1234''}"
    by (simp add: mitigation_obj_def external_references_def refs one)
  have cat: "str ''https://attack.mitre.org/mitigations/'' @ str ''M1234''
               = str ''https://attack.mitre.org/mitigations/M1234''"
    by (simp add: str_def)
  have "for_each (mitigation_obj uc) {} (before @ [JDict ob] @ after)
          = Inr {str ''https://attack.mitre.org/mitigations/M1234''}"
    by (simp add: for_each_append mitigation_objs_no_refs [OF pre]
        mitigation_objs_no_refs [OF post] ob cat)
  then show ?thesis
    by (simp add: extract_mitigation_urls_def mitigation_file_def objects_of_def objs)
qed

theorem C3_witness:
  "extract_mitigation_urls (\<lambda>c. [c]) [Some m1234_doc]
     = Inr {str ''https://attack.mitre.org/mitigations/M1234''}"
  unfolding m1234_doc_def
  by (rule C3_synthesized_mitigation_url [where before = "[JStr (str ''not an object''), JDict [(str ''type'', JStr (str ''identity''))]]"
        and after = "[JDict [(str ''external_references'', JList [])]]"
        and ob = "[(str ''type'', JStr (str ''course-of-action'')),
                      (str ''external_references'', JList [
                         JDict [(str ''source_name'', JStr (str ''mitre-attack'')),
                                (str ''external_id'', JStr (str ''M1234''))]])]"
        and ref = "[(str ''source_name'', JStr (str ''mitre-attack'')),
                                (str ''external_id'', JStr (str ''M1234''))]"])
     (simp_all add: no_reference_records_def external_references_def str_def)

text \<open>
  C4 (what the code does with a synthesized URL). The specification asks that no line of
  a scanner's output ends with a slash. The technique scanner strips each line as it
  writes it, and the mitigation scanner strips an explicit \<open>url\<close> as it collects it; a
  URL synthesized from \<open>external_id\<close> is stripped at neither place. For the identifier
  \<open>M1234/\<close> the mitigation scanner writes the line with its trailing slash.
\<close>

theorem C4_synthesized_url_keeps_slash:
  "extract_mitigation_urls uc [Some slash_id_doc]
     = Inr {str ''https://attack.mitre.org/mitigations/M1234/''}
   \<and> mitigation_main uc rootdir out [Some slash_id_doc]
       [str ''https://attack.mitre.org/mitigations/M1234/''] w
     = Inr (w\<lparr>stdout := stdout w @ [Scanning rootdir, Wrote 1 out],
             out_file := Some (str ''https://attack.mitre.org/mitigations/M1234/\<newline>'')\<rparr>)
   \<and> endswith (str ''https://attack.mitre.org/mitigations/M1234/'') (str ''/'')"
proof -
  have "mitigation_main uc rootdir out [Some slash_id_doc]
       [str ''https://attack.mitre.org/mitigations/M1234/''] w
     = Inr (w\<lparr>stdout := stdout w @ [Scanning rootdir, Wrote 1 out],
             out_file := Some (str ''https://attack.mitre.org/mitigations/M1234/\<newline>'')\<rparr>)"
    by (simp add: mitigation_main_def slash_id_doc_urls print_def write_lines_def)
       (simp add: str_def)
  moreover have "endswith (str ''https://attack.mitre.org/mitigations/M1234/'') (str ''/'')"
    by (simp add: endswith_def str_def)
  ultimately show ?thesis
    using slash_id_doc_urls by simp
qed

text \<open>
  C5. A file that fails to read or to parse contributes nothing to a scanner's result
  and does not abort the scan: taking it out of the list of files changes nothing, and
  when each remaining file is scanned without an exception the result is the union of
  the results of the remaining files, each scanned alone.
\<close>

theorem C5_failed_files_skipped:
  "extract_urls (xs @ None # ys) = extract_urls (xs @ ys)
   \<and> extract_mitigation_urls uc (xs @ None # ys) = extract_mitigation_urls uc (xs @ ys)
   \<and> ((\<forall>f\<in>set (parsed files). \<exists>S. extract_urls [f] = Inr S) \<longrightarrow>
        extract_urls files = Inr (\<Union>f\<in>set (parsed files). result_set (extract_urls [f])))
   \<and> ((\<forall>f\<in>set (parsed files). \<exists>S. extract_mitigation_urls uc [f] = Inr S) \<longrightarrow>
        extract_mitigation_urls uc files
          = Inr (\<Union>f\<in>set (parsed files). result_set (extract_mitigation_urls uc [f])))"
proof (intro conjI impI)
  show "extract_urls (xs @ None # ys) = extract_urls (xs @ ys)"
    unfolding extract_urls_def by (rule for_each_skip) (simp add: technique_file_def)
  show "extract_mitigation_urls uc (xs @ None # ys) = extract_mitigation_urls uc (xs @ ys)"
    unfolding extract_mitigation_urls_def by (rule for_each_skip) (simp add: mitigation_file_def)
next
  assume "\<forall>f\<in>set (parsed files). \<exists>S. extract_urls [f] = Inr S"
  moreover have one: "extract_urls [f] = technique_file {} f" for f
    by (simp add: extract_urls_def split: sum.splits)
  ultimately have ok: "\<forall>f\<in>set (parsed files). \<exists>S. technique_file {} f = Inr S"
    by simp
  have "extract_urls files = for_each technique_file {} (parsed files)"
    unfolding extract_urls_def
    by (rule for_each_parsed [symmetric]) (simp add: technique_file_def)
  also have "\<dots> = Inr (\<Union>f\<in>set (parsed files). result_set (technique_file {} f))"
    by (rule for_each_union [OF adds_technique_file ok])
  finally show "extract_urls files
      = Inr (\<Union>f\<in>set (parsed files). result_set (extract_urls [f]))"
    by (simp add: one)
next
  assume "\<forall>f\<in>set (parsed files). \<exists>S. extract_mitigation_urls uc [f] = Inr S"
  moreover have one: "extract_mitigation_urls uc [f] = mitigation_file uc {} f" for f
    by (simp add: extract_mitigation_urls_def split: sum.splits)
  ultimately have ok: "\<forall>f\<in>set (parsed files). \<exists>S. mitigation_file uc {} f = Inr S"
    by simp
  have "extract_mitigation_urls uc files = for_each (mitigation_file uc) {} (parsed files)"
    unfolding extract_mitigation_urls_def
    by (rule for_each_parsed [symmetric]) (simp add: mitigation_file_def)
  also have "\<dots> = Inr (\<Union>f\<in>set (parsed files). result_set (mitigation_file uc {} f))"
    by (rule for_each_union [OF adds_mitigation_file ok])
  finally show "extract_mitigation_urls uc files
      = Inr (\<Union>f\<in>set (parsed files). result_set (extract_mitigation_urls uc [f]))"
    by (simp add: one)
qed

theorem C5_witness:
  "extract_urls [Some subtechnique_doc, None, Some techniques_doc]
     = Inr {HStr (str ''https://attack.mitre.org/techniques/T1059/001''),
            HStr (str ''https://attack.mitre.org/techniques/T1547/001''),
            HStr (str ''https://attack.mitre.org/techniques/T1059.001''),
            HStr (str ''https://attack.mitre.org/techniques/T1003/''),
            HStr (str ''https://attack.mitre.org/techniques/T1548'')}
   \<and> extract_urls [Some subtechnique_doc, None, Some techniques_doc]
     = extract_urls [Some subtechnique_doc, Some techniques_doc]
   \<and> extract_mitigation_urls (\<lambda>c. [c]) [None, Some m1234_doc, Some slash_id_doc]
     = Inr {str ''https://attack.mitre.org/mitigations/M1234'',
            str ''https://attack.mitre.org/mitigations/M1234/''}
   \<and> extract_mitigation_urls (\<lambda>c. [c]) [None, Some m1234_doc, Some slash_id_doc]
     = extract_mitigation_urls (\<lambda>c. [c]) [Some m1234_doc, Some slash_id_doc]"
proof -
  have a: "extract_urls [Some subtechnique_doc, None, Some techniques_doc]
     = Inr {HStr (str ''https://attack.mitre.org/techniques/T1059/001''),
            HStr (str ''https://attack.mitre.org/techniques/T1547/001''),
            HStr (str ''https://attack.mitre.org/techniques/T1059.001''),
            HStr (str ''https://attack.mitre.org/techniques/T1003/''),
            HStr (str ''https://attack.mitre.org/techniques/T1548'')}"
    using C5_failed_files_skipped [of "[]" "[]" "\<lambda>c. [c]" "[Some subtechnique_doc, None, Some techniques_doc]"]
    by (simp add: parsed_def result_set_def subtechnique_doc_urls techniques_doc_urls insert_commute)
  have b: "extract_mitigation_urls (\<lambda>c. [c]) [None, Some m1234_doc, Some slash_id_doc]
     = Inr {str ''https://attack.mitre.org/mitigations/M1234'',
            str ''https://attack.mitre.org/mitigations/M1234/''}"
    using C5_failed_files_skipped [of "[]" "[]" "\<lambda>c. [c]" "[None, Some m1234_doc, Some slash_id_doc]"]
    by (simp add: parsed_def result_set_def m1234_doc_urls slash_id_doc_urls insert_commute)
  show ?thesis
    using a b C5_failed_files_skipped [of "[Some subtechnique_doc]" "[Some techniques_doc]" "\<lambda>c. [c]" "[]"]
      C5_failed_files_skipped [of "[]" "[Some m1234_doc, Some slash_id_doc]" "\<lambda>c. [c]" "[]"]
    by simp
qed

text \<open>
  C6. When the set a scanner extracts is empty, its \<open>main\<close> reports that nothing was
  found and returns; the output file is neither written nor created, its state is the
  one before the run.
\<close>

theorem C6_empty_set_writes_nothing:
  "(extract_urls files = Inr {} \<longrightarrow>
      technique_main rootdir out files order w
        = Inr (w\<lparr>stdout := stdout w @ [Scanning rootdir, NoneFound]\<rparr>))
   \<and> (extract_mitigation_urls uc files = Inr {} \<longrightarrow>
      mitigation_main uc rootdir out files order' w
        = Inr (w\<lparr>stdout := stdout w @ [Scanning rootdir, NoneFound]\<rparr>))"
  by (simp add: technique_main_def mitigation_main_def print_def)

theorem C6_witness:
  "extract_urls [None, Some (JList []), Some (JDict [(str ''objects'', JList [JNull])])] = Inr {}
   \<and> technique_main (str ''data'') (str ''out.txt'')
        [None, Some (JList []), Some (JDict [(str ''objects'', JList [JNull])])] []
        \<lparr>stdout = [], out_file = Some (str ''old'')\<rparr>
      = Inr \<lparr>stdout = [Scanning (str ''data''), NoneFound], out_file = Some (str ''old'')\<rparr>
   \<and> extract_mitigation_urls (\<lambda>c. [c]) [None, Some (JList []), Some (JDict [(str ''objects'', JList [JNull])])] = Inr {}
   \<and> mitigation_main (\<lambda>c. [c]) (str ''data'') (str ''out.txt'')
        [None, Some (JList []), Some (JDict [(str ''objects'', JList [JNull])])] []
        \<lparr>stdout = [], out_file = None\<rparr>
      = Inr \<lparr>stdout = [Scanning (str ''data''), NoneFound], out_file = None\<rparr>"
proof -
  have a: "extract_urls [None, Some (JList []), Some (JDict [(str ''objects'', JList [JNull])])] = Inr {}"
    by (simp add: extract_urls_def technique_file_def technique_obj_def objects_of_def)
  have b: "extract_mitigation_urls (\<lambda>c. [c]) [None, Some (JList []), Some (JDict [(str ''objects'', JList [JNull])])] = Inr {}"
    by (simp add: extract_mitigation_urls_def mitigation_file_def mitigation_obj_def objects_of_def)
  show ?thesis
    using a b C6_empty_set_writes_nothing [of "[None, Some (JList []), Some (JDict [(str ''objects'', JList [JNull])])]"
          "str ''data''" "str ''out.txt''" "[]" "\<lparr>stdout = [], out_file = Some (str ''old'')\<rparr>" "\<lambda>c. [c]" "[]"]
      C6_empty_set_writes_nothing [of "[None, Some (JList []), Some (JDict [(str ''objects'', JList [JNull])])]"
          "str ''data''" "str ''out.txt''" "[]" "\<lparr>stdout = [], out_file = None\<rparr>" "\<lambda>c. [c]" "[]"]
    by simp
qed

text \<open>
  C7. The scanner writes its URLs in the order of their final path segments, compared as
  strings: for URLs whose last segments are \<open>T1059.001\<close>, \<open>T1003\<close> and \<open>T1548\<close>, and for
  every iteration order of the set, the lines written are those of \<open>T1003\<close>, then
  \<open>T1059.001\<close>, then \<open>T1548\<close>.
\<close>

theorem C7_sorted_by_last_segment:
  assumes k1: "keyfn u1 = str ''T1059.001''" and k2: "keyfn u2 = str ''T1003''"
    and k3: "keyfn u3 = str ''T1548''"
    and ex: "extract_urls files = Inr {HStr u1, HStr u2, HStr u3}"
    and it: "iteration_of order {HStr u1, HStr u2, HStr u3}"
  shows "sorted_urls order = Inr [u2, u1, u3]
    \<and> technique_main rootdir out files order w
      = Inr (w\<lparr>stdout := stdout w @ [Scanning rootdir, Wrote 3 out],
              out_file := Some (rstrip 47 u2 @ str ''\<newline>'' @ rstrip 47 u1 @ str ''\<newline>''
                                @ rstrip 47 u3 @ str ''\<newline>'')\<rparr>)"
proof -
  have ne: "u1 \<noteq> u2" "u1 \<noteq> u3" "u2 \<noteq> u3"
    using k1 k2 k3 by (auto simp: str_def)
  from it have "set order \<subseteq> range HStr"
    by (auto simp: iteration_of_def)
  then obtain us where us: "order = map HStr us"
    using all_HStr_map by blast
  have inj: "inj HStr" by (simp add: inj_def)
  from it us have set_us: "set us = {u1, u2, u3}"
    unfolding iteration_of_def by (auto simp: image_iff)
  from it us have dist: "distinct us"
    by (simp add: iteration_of_def distinct_map)
  have "mset us = mset [u2, u1, u3]"
    using set_eq_iff_mset_eq_distinct [of us "[u2, u1, u3]"] dist set_us ne by auto
  moreover have "inj_on keyfn (set us)"
    using k1 k2 k3 by (auto simp: set_us inj_on_def str_def)
  moreover have "sorted (map keyfn [u2, u1, u3])"
    by (simp add: k1 k2 k3 str_def)
  ultimately have srt: "sort_key keyfn us = [u2, u1, u3]"
    by (rule sort_key_inj_key_eq)
  have su: "sorted_urls order = Inr [u2, u1, u3]"
    by (simp add: sorted_urls_def us those_str_of_map srt)
  show ?thesis
    by (simp add: su technique_main_def ex print_def write_lines_def)
qed

theorem C7_witness:
  "technique_main (str ''data'') (str ''out.txt'') [Some techniques_doc]
     [HStr (str ''https://attack.mitre.org/techniques/T1548''),
      HStr (str ''https://attack.mitre.org/techniques/T1059.001''),
      HStr (str ''https://attack.mitre.org/techniques/T1003/'')]
     \<lparr>stdout = [], out_file = None\<rparr>
   = Inr \<lparr>stdout = [Scanning (str ''data''), Wrote 3 (str ''out.txt'')],
          out_file = Some (str ''https://attack.mitre.org/techniques/T1003\<newline>https://attack.mitre.org/techniques/T1059.001\<newline>https://attack.mitre.org/techniques/T1548\<newline>'')\<rparr>"
proof -
  have k1: "keyfn (str ''https://attack.mitre.org/techniques/T1059.001'') = str ''T1059.001''"
    by code_simp
  have k2: "keyfn (str ''https://attack.mitre.org/techniques/T1003/'') = str ''T1003''"
    by code_simp
  have k3: "keyfn (str ''https://attack.mitre.org/techniques/T1548'') = str ''T1548''"
    by code_simp
  have it: "iteration_of
     [HStr (str ''https://attack.mitre.org/techniques/T1548''),
      HStr (str ''https://attack.mitre.org/techniques/T1059.001''),
      HStr (str ''https://attack.mitre.org/techniques/T1003/'')]
     {HStr (str ''https://attack.mitre.org/techniques/T1059.001''),
      HStr (str ''https://attack.mitre.org/techniques/T1003/''),
      HStr (str ''https://attack.mitre.org/techniques/T1548'')}"
    by (auto simp: iteration_of_def str_def)
  have r1: "rstrip 47 (str ''https://attack.mitre.org/techniques/T1059.001'')
              = str ''https://attack.mitre.org/techniques/T1059.001''"
    by code_simp
  have r2: "rstrip 47 (str ''https://attack.mitre.org/techniques/T1003/'')
              = str ''https://attack.mitre.org/techniques/T1003''"
    by code_simp
  have r3: "rstrip 47 (str ''https://attack.mitre.org/techniques/T1548'')
              = str ''https://attack.mitre.org/techniques/T1548''"
    by code_simp
  have cat: "str ''https://attack.mitre.org/techniques/T1003'' @ str ''\<newline>''
             @ str ''https://attack.mitre.org/techniques/T1059.001'' @ str ''\<newline>''
             @ str ''https://attack.mitre.org/techniques/T1548'' @ str ''\<newline>''
           = str ''https://attack.mitre.org/techniques/T1003\<newline>https://attack.mitre.org/techniques/T1059.001\<newline>https://attack.mitre.org/techniques/T1548\<newline>''"
    by (simp add: str_def)
  show ?thesis
    using C7_sorted_by_last_segment [OF k1 k2 k3 techniques_doc_urls it, of "str ''data''" "str ''out.txt''"
        "\<lparr>stdout = [], out_file = None\<rparr>"]
    by (simp add: r1 r2 r3 cat)
qed

end
